theory Spec2Isabelle
  imports Main
begin

section \<open>Data model\<close>

text \<open>
  A JavaScript \<^verbatim>\<open>Date\<close> holds a time value: an integral number of milliseconds since
  the epoch, or NaN (an Invalid Date). A time value is at most 8.64e15 in magnitude, below
  \<open>2 ^ 53\<close>, where the arithmetic of doubles on integers is exact; NaN is \<open>None\<close>.
\<close>

datatype date = Date int | InvalidDate

fun getTime :: "date \<Rightarrow> int option" where
  "getTime (Date t) = Some t"
| "getTime InvalidDate = None"

text \<open>
  The row type \<^verbatim>\<open>Product\<close> of the table \<^verbatim>\<open>products\<close>, with the fields the service and
  its tests use. The three dates are nullable (\<open>None\<close> is \<^verbatim>\<open>null\<close>); the type tag is a string
  at run time (\<^verbatim>\<open>product.type as ProductType\<close> is a cast, not a check).
\<close>

record product =
  product_id :: int
  leadTime :: int
  available :: int
  product_type :: string
  name :: string
  expiryDate :: "date option"
  seasonStartDate :: "date option"
  seasonEndDate :: "date option"

text \<open>
  \<^verbatim>\<open>Partial<Product>\<close>: every field may be absent from a patch (\<open>None\<close>); a present
  nullable field carries its new value, which may be \<^verbatim>\<open>null\<close>.
\<close>

record patch =
  patch_id :: "int option"
  patch_leadTime :: "int option"
  patch_available :: "int option"
  patch_type :: "string option"
  patch_name :: "string option"
  patch_expiryDate :: "date option option"
  patch_seasonStartDate :: "date option option"
  patch_seasonEndDate :: "date option option"

definition empty_patch :: patch where
  "empty_patch = \<lparr>patch_id = None, patch_leadTime = None, patch_available = None,
     patch_type = None, patch_name = None, patch_expiryDate = None,
     patch_seasonStartDate = None, patch_seasonEndDate = None\<rparr>"

text \<open>The calls the service makes on its two collaborators, in the order it makes them.\<close>

datatype call =
    UpdateProduct int patch
  | SendDelayNotification int string
  | SendOutOfStockNotification string
  | SendExpirationNotification string "date option"

text \<open>
  The state the service acts on: the rows of the table \<^verbatim>\<open>products\<close> behind \<^verbatim>\<open>this.db\<close>,
  and the calls made so far on \<^verbatim>\<open>this.db\<close> and \<^verbatim>\<open>this.ns\<close>.
\<close>

record state =
  db :: "product list"
  calls :: "call list"

section \<open>Numbers\<close>

text \<open>
  The fields \<open>available\<close> and \<open>leadTime\<close> are JavaScript numbers: doubles, here holding
  integers (the columns are integer columns). A double has 53 bits of mantissa, so an
  integer of magnitude \<open>2 ^ 53\<close> or more is a double only if it is a multiple of its unit in
  the last place, \<open>double_ulp\<close>. An operation returns the double nearest to the exact
  result, the one with the even mantissa on a tie: that is \<open>round_double\<close> of the exact
  result (for magnitudes below \<open>2 ^ 1024\<close>, where doubles end), and \<open>js_minus\<close> is the
  operator \<^verbatim>\<open>-\<close>.
\<close>

function double_ulp :: "int \<Rightarrow> int" where
  "double_ulp a = (if a < 2 ^ 53 then 1 else 2 * double_ulp (a div 2))"
  by pat_completeness auto
termination
  by (relation "measure nat") auto

definition round_double :: "int \<Rightarrow> int" where
  "round_double v =
     (let a = \<bar>v\<bar>; q = double_ulp a; m = a div q; r = a mod q;
          n = (if 2 * r < q \<or> 2 * r = q \<and> even m then m else m + 1)
      in sgn v * (n * q))"

definition js_minus :: "int \<Rightarrow> int \<Rightarrow> int" where
  "js_minus x y = round_double (x - y)"

section \<open>Dates and comparisons\<close>

definition DAY_IN_MS :: int where
  "DAY_IN_MS = 24 * 60 * 60 * 1000"

text \<open>
  \<^verbatim>\<open>new Date(v)\<close> clips the time value: NaN and values beyond 8.64e15 ms in magnitude
  give an Invalid Date.
\<close>

definition new_Date :: "int option \<Rightarrow> date" where
  "new_Date v =
     (case v of
        None \<Rightarrow> InvalidDate
      | Some t \<Rightarrow> if \<bar>t\<bar> \<le> 8640000000000000 then Date t else InvalidDate)"

text \<open>
  The operands of \<^verbatim>\<open><\<close> and \<^verbatim>\<open>>\<close> are converted to numbers: a \<^verbatim>\<open>Date\<close> to its time
  value, \<^verbatim>\<open>null\<close> to 0. A comparison with NaN is false.
\<close>

fun toNumber :: "date option \<Rightarrow> int option" where
  "toNumber None = Some 0"
| "toNumber (Some d) = getTime d"

definition js_gt :: "date option \<Rightarrow> date option \<Rightarrow> bool" where
  "js_gt a b =
     (case toNumber a of
        None \<Rightarrow> False
      | Some x \<Rightarrow> (case toNumber b of None \<Rightarrow> False | Some y \<Rightarrow> x > y))"

definition js_lt :: "date option \<Rightarrow> date option \<Rightarrow> bool" where
  "js_lt a b =
     (case toNumber a of
        None \<Rightarrow> False
      | Some x \<Rightarrow> (case toNumber b of None \<Rightarrow> False | Some y \<Rightarrow> x < y))"

section \<open>The persistence and notification gateways\<close>

definition apply_patch :: "patch \<Rightarrow> product \<Rightarrow> product" where
  "apply_patch u r =
     \<lparr>product_id = (case patch_id u of None \<Rightarrow> product_id r | Some v \<Rightarrow> v),
      leadTime = (case patch_leadTime u of None \<Rightarrow> leadTime r | Some v \<Rightarrow> v),
      available = (case patch_available u of None \<Rightarrow> available r | Some v \<Rightarrow> v),
      product_type = (case patch_type u of None \<Rightarrow> product_type r | Some v \<Rightarrow> v),
      name = (case patch_name u of None \<Rightarrow> name r | Some v \<Rightarrow> v),
      expiryDate = (case patch_expiryDate u of None \<Rightarrow> expiryDate r | Some v \<Rightarrow> v),
      seasonStartDate =
        (case patch_seasonStartDate u of None \<Rightarrow> seasonStartDate r | Some v \<Rightarrow> v),
      seasonEndDate =
        (case patch_seasonEndDate u of None \<Rightarrow> seasonEndDate r | Some v \<Rightarrow> v)\<rparr>"

text \<open>
  \<^verbatim>\<open>db.update(products).set(patch).where(eq(products.id, productId))\<close>: every row whose
  id is \<open>productId\<close> takes the patch, the others stay; no row matching is not an error.
\<close>

definition updateProduct :: "int \<Rightarrow> patch \<Rightarrow> state \<Rightarrow> state" where
  "updateProduct productId u s =
     s\<lparr>db := map (\<lambda>r. if product_id r = productId then apply_patch u r else r) (db s),
       calls := calls s @ [UpdateProduct productId u]\<rparr>"

definition sendDelayNotification :: "int \<Rightarrow> string \<Rightarrow> state \<Rightarrow> state" where
  "sendDelayNotification lt nm s = s\<lparr>calls := calls s @ [SendDelayNotification lt nm]\<rparr>"

definition sendOutOfStockNotification :: "string \<Rightarrow> state \<Rightarrow> state" where
  "sendOutOfStockNotification nm s = s\<lparr>calls := calls s @ [SendOutOfStockNotification nm]\<rparr>"

definition sendExpirationNotification :: "string \<Rightarrow> date option \<Rightarrow> state \<Rightarrow> state" where
  "sendExpirationNotification nm d s =
     s\<lparr>calls := calls s @ [SendExpirationNotification nm d]\<rparr>"

section \<open>The product service\<close>

text \<open>
  The methods of \<^verbatim>\<open>ProductService\<close>, each a function from the state before to the state
  after; every \<^verbatim>\<open>await\<close> is sequential, so the calls compose in the order of the source.
  The reference time \<open>now\<close> is always an argument: its default \<^verbatim>\<open>new Date()\<close> is the
  clock of the caller.
\<close>

definition decrementAvailable :: "product \<Rightarrow> state \<Rightarrow> state" where
  "decrementAvailable p s =
     updateProduct (product_id p) (empty_patch\<lparr>patch_available := Some (js_minus (available p) 1)\<rparr>) s"

definition notifyDelay :: "int \<Rightarrow> product \<Rightarrow> state \<Rightarrow> state" where
  "notifyDelay lt p s =
     sendDelayNotification lt (name p)
       (updateProduct (product_id p) (empty_patch\<lparr>patch_leadTime := Some lt\<rparr>) s)"

definition isWithinSeason :: "product \<Rightarrow> date \<Rightarrow> bool" where
  "isWithinSeason p now \<longleftrightarrow>
     seasonStartDate p \<noteq> None \<and> seasonEndDate p \<noteq> None \<and>
     js_gt (Some now) (seasonStartDate p) \<and> js_lt (Some now) (seasonEndDate p)"

definition isNotExpired :: "product \<Rightarrow> date \<Rightarrow> bool" where
  "isNotExpired p now \<longleftrightarrow> expiryDate p \<noteq> None \<and> js_gt (expiryDate p) (Some now)"

text \<open>
  \<^verbatim>\<open>new Date(now.getTime() + p.leadTime * DAY_IN_MS)\<close>. The sum is written on the
  integers: \<open>86400000\<close> is \<open>2 ^ 10 * 84375\<close>, so the product and the sum are exact in
  doubles whenever the sum is within the range of a time value, and beyond that range the
  rounded sum is beyond it too and the date is invalid either way.
\<close>

definition expectedRestockDate :: "product \<Rightarrow> date \<Rightarrow> date" where
  "expectedRestockDate p now =
     new_Date (map_option (\<lambda>t. t + leadTime p * DAY_IN_MS) (getTime now))"

definition handleSeasonalProduct :: "product \<Rightarrow> date \<Rightarrow> state \<Rightarrow> state" where
  "handleSeasonalProduct p now s =
     (if js_gt (Some (expectedRestockDate p now)) (seasonEndDate p) then
        updateProduct (product_id p) (empty_patch\<lparr>patch_available := Some 0\<rparr>)
          (sendOutOfStockNotification (name p) s)
      else if js_gt (seasonStartDate p) (Some now) then
        updateProduct (product_id p)
          (empty_patch\<lparr>patch_available := Some (available p),
             patch_leadTime := Some (leadTime p)\<rparr>)
          (sendOutOfStockNotification (name p) s)
      else notifyDelay (leadTime p) p s)"

definition handleExpiredProduct :: "product \<Rightarrow> date \<Rightarrow> state \<Rightarrow> state" where
  "handleExpiredProduct p now s =
     (if available p > 0 \<and> isNotExpired p now then decrementAvailable p s
      else
        updateProduct (product_id p) (empty_patch\<lparr>patch_available := Some 0\<rparr>)
          (sendExpirationNotification (name p) (expiryDate p) s))"

definition processNormalProduct :: "product \<Rightarrow> state \<Rightarrow> state" where
  "processNormalProduct p s =
     (if available p > 0 then decrementAvailable p s
      else if leadTime p > 0 then notifyDelay (leadTime p) p s
      else s)"

definition processSeasonalProduct :: "product \<Rightarrow> date \<Rightarrow> state \<Rightarrow> state" where
  "processSeasonalProduct p now s =
     (if isWithinSeason p now \<and> available p > 0 then decrementAvailable p s
      else handleSeasonalProduct p now s)"

definition processExpirableProduct :: "product \<Rightarrow> date \<Rightarrow> state \<Rightarrow> state" where
  "processExpirableProduct p now s =
     (if available p > 0 \<and> isNotExpired p now then decrementAvailable p s
      else handleExpiredProduct p now s)"

definition processOneUnit :: "product \<Rightarrow> date \<Rightarrow> state \<Rightarrow> state" where
  "processOneUnit p now s =
     (if product_type p = ''NORMAL'' then processNormalProduct p s
      else if product_type p = ''SEASONAL'' then processSeasonalProduct p now s
      else if product_type p = ''EXPIRABLE'' then processExpirableProduct p now s
      else s)"

section \<open>Observing a call of the service\<close>

text \<open>The calls made between a state and a later one, and which of them write to the table.\<close>

definition new_calls :: "state \<Rightarrow> state \<Rightarrow> call list" where
  "new_calls s s' = drop (length (calls s)) (calls s')"

fun isUpdate :: "call \<Rightarrow> bool" where
  "isUpdate (UpdateProduct i u) = True"
| "isUpdate c = False"

text \<open>The inputs on which \<open>processOneUnit\<close> reaches \<open>decrementAvailable\<close>.\<close>

definition takesDecrementBranch :: "product \<Rightarrow> date \<Rightarrow> bool" where
  "takesDecrementBranch p now \<longleftrightarrow>
     product_type p = ''NORMAL'' \<and> available p > 0 \<or>
     product_type p = ''SEASONAL'' \<and> isWithinSeason p now \<and> available p > 0 \<or>
     product_type p = ''EXPIRABLE'' \<and> available p > 0 \<and> isNotExpired p now"

text \<open>
  The calls of one action paired with its update, for the product \<open>p\<close>: the decrement; the
  delay notification after the write of \<open>leadTime\<close>; the out-of-stock notification before
  the write of \<open>available = 0\<close>, or of \<open>available\<close> and \<open>leadTime\<close> as they are; the
  expiration notification before the write of \<open>available = 0\<close>.
\<close>

definition one_action_with_update :: "product \<Rightarrow> call list \<Rightarrow> bool" where
  "one_action_with_update p cs \<longleftrightarrow>
     cs = [UpdateProduct (product_id p)
             (empty_patch\<lparr>patch_available := Some (js_minus (available p) 1)\<rparr>)] \<or>
     cs = [UpdateProduct (product_id p) (empty_patch\<lparr>patch_leadTime := Some (leadTime p)\<rparr>),
           SendDelayNotification (leadTime p) (name p)] \<or>
     cs = [SendOutOfStockNotification (name p),
           UpdateProduct (product_id p) (empty_patch\<lparr>patch_available := Some 0\<rparr>)] \<or>
     cs = [SendOutOfStockNotification (name p),
           UpdateProduct (product_id p)
             (empty_patch\<lparr>patch_available := Some (available p),
                patch_leadTime := Some (leadTime p)\<rparr>)] \<or>
     cs = [SendExpirationNotification (name p) (expiryDate p),
           UpdateProduct (product_id p) (empty_patch\<lparr>patch_available := Some 0\<rparr>)]"

section \<open>The frame of an operation\<close>

text \<open>
  A patch that writes at most \<open>available\<close> and \<open>leadTime\<close>; two rows that agree on every
  other field; and the frame of an operation on the product of id \<open>pid\<close>: the calls made
  before are still there, every update made since targets \<open>pid\<close> with such a patch, and the
  table has the same rows in the same order, differing at most by \<open>available\<close> and
  \<open>leadTime\<close> of the rows of id \<open>pid\<close>.
\<close>

definition writes_only_stock :: "patch \<Rightarrow> bool" where
  "writes_only_stock u \<longleftrightarrow>
     patch_id u = None \<and> patch_type u = None \<and> patch_name u = None \<and>
     patch_expiryDate u = None \<and> patch_seasonStartDate u = None \<and>
     patch_seasonEndDate u = None"

fun update_in_frame :: "int \<Rightarrow> call \<Rightarrow> bool" where
  "update_in_frame pid (UpdateProduct i u) \<longleftrightarrow> i = pid \<and> writes_only_stock u"
| "update_in_frame pid c \<longleftrightarrow> True"

definition same_but_stock :: "int \<Rightarrow> product \<Rightarrow> product \<Rightarrow> bool" where
  "same_but_stock pid r r' \<longleftrightarrow>
     product_id r' = product_id r \<and> product_type r' = product_type r \<and> name r' = name r \<and>
     expiryDate r' = expiryDate r \<and> seasonStartDate r' = seasonStartDate r \<and>
     seasonEndDate r' = seasonEndDate r \<and>
     (product_id r \<noteq> pid \<longrightarrow> r' = r)"

definition in_frame :: "int \<Rightarrow> state \<Rightarrow> state \<Rightarrow> bool" where
  "in_frame pid s s' \<longleftrightarrow>
     take (length (calls s)) (calls s') = calls s \<and>
     list_all (update_in_frame pid) (new_calls s s') \<and>
     list_all2 (same_but_stock pid) (db s) (db s')"

section \<open>Products of the test suite\<close>

text \<open>
  The records of the service's test suite, with \<^verbatim>\<open>now\<close> fixed at 1700000000000 ms; the
  season and expiry dates are \<^verbatim>\<open>now - 2 d\<close> and \<^verbatim>\<open>now + 10 d\<close> as in the tests. Two more
  inputs: the out-of-stock NORMAL product with no lead time, and a table of two rows with
  different ids.
\<close>

definition now0 :: date where
  "now0 = Date 1700000000000"

definition usb_cable :: product where
  "usb_cable = \<lparr>product_id = 1, leadTime = 15, available = 2, product_type = ''NORMAL'',
     name = ''USB Cable'', expiryDate = None, seasonStartDate = None, seasonEndDate = None\<rparr>"

definition watermelon :: product where
  "watermelon = \<lparr>product_id = 1, leadTime = 15, available = 3, product_type = ''SEASONAL'',
     name = ''Watermelon'', expiryDate = None,
     seasonStartDate = Some (Date 1699827200000), seasonEndDate = Some (Date 1700864000000)\<rparr>"

definition grapes :: product where
  "grapes = \<lparr>product_id = 1, leadTime = 30, available = 0, product_type = ''SEASONAL'',
     name = ''Grapes'', expiryDate = None,
     seasonStartDate = Some (Date 1699827200000), seasonEndDate = Some (Date 1700864000000)\<rparr>"

definition butter :: product where
  "butter = \<lparr>product_id = 1, leadTime = 15, available = 2, product_type = ''EXPIRABLE'',
     name = ''Butter'', expiryDate = Some (Date 1700864000000),
     seasonStartDate = None, seasonEndDate = None\<rparr>"

definition milk :: product where
  "milk = \<lparr>product_id = 1, leadTime = 15, available = 6, product_type = ''EXPIRABLE'',
     name = ''Milk'', expiryDate = Some (Date 1699827200000),
     seasonStartDate = None, seasonEndDate = None\<rparr>"

definition usb_dongle_none :: product where
  "usb_dongle_none = \<lparr>product_id = 1, leadTime = 0, available = 0, product_type = ''NORMAL'',
     name = ''USB Dongle'', expiryDate = None, seasonStartDate = None, seasonEndDate = None\<rparr>"

definition two_rows :: state where
  "two_rows = \<lparr>db = [grapes, usb_cable\<lparr>product_id := 2\<rparr>], calls = []\<rparr>"

section \<open>Basic facts\<close>

declare double_ulp.simps [simp del]

lemma double_ulp_small: "a < 2 ^ 53 \<Longrightarrow> double_ulp a = 1"
  by (simp add: double_ulp.simps)

lemma double_ulp_next: "2 ^ 53 \<le> a \<Longrightarrow> a < 2 ^ 54 \<Longrightarrow> double_ulp a = 2"
  by (subst double_ulp.simps) (simp add: double_ulp_small)

lemma round_double_exact: "\<bar>v\<bar> \<le> 2 ^ 53 \<Longrightarrow> round_double v = v"
proof (cases "\<bar>v\<bar> < 2 ^ 53")
  case True
  then show ?thesis
    by (simp add: round_double_def double_ulp_small Let_def sgn_if)
next
  case False
  assume "\<bar>v\<bar> \<le> 2 ^ 53"
  with False have "v = 9007199254740992 \<or> v = - 9007199254740992"
    by (simp add: abs_if split: if_splits)
  moreover have "double_ulp 9007199254740992 = 2"
    by (rule double_ulp_next) simp_all
  ultimately show ?thesis
    by (auto simp: round_double_def Let_def)
qed

lemma js_minus_exact: "\<bar>x - y\<bar> \<le> 9007199254740992 \<Longrightarrow> js_minus x y = x - y"
  by (simp add: js_minus_def round_double_exact)

lemma js_minus_one_exact:
  "0 < x \<Longrightarrow> x \<le> 9007199254740992 \<Longrightarrow> js_minus x 1 = x - 1"
  by (rule js_minus_exact) simp

lemma js_minus_rounds: "js_minus 9007199254740994 1 = 9007199254740992"
proof -
  have "double_ulp 9007199254740993 = 2"
    by (rule double_ulp_next) simp_all
  then show ?thesis
    by (simp add: js_minus_def round_double_def Let_def)
qed

lemma js_gt_Date [simp]: "js_gt (Some (Date a)) (Some (Date b)) \<longleftrightarrow> a > b"
  by (simp add: js_gt_def)

lemma js_lt_Date [simp]: "js_lt (Some (Date a)) (Some (Date b)) \<longleftrightarrow> a < b"
  by (simp add: js_lt_def)

lemma js_gt_irrefl [simp]: "\<not> js_gt d d"
  by (simp add: js_gt_def split: option.splits)

lemma js_lt_irrefl [simp]: "\<not> js_lt d d"
  by (simp add: js_lt_def split: option.splits)

lemma apply_patch_available [simp]:
  "apply_patch (empty_patch\<lparr>patch_available := Some v\<rparr>) r = r\<lparr>available := v\<rparr>"
  by (simp add: apply_patch_def empty_patch_def)

lemma apply_patch_leadTime [simp]:
  "apply_patch (empty_patch\<lparr>patch_leadTime := Some v\<rparr>) r = r\<lparr>leadTime := v\<rparr>"
  by (simp add: apply_patch_def empty_patch_def)

lemma apply_patch_both [simp]:
  "apply_patch (empty_patch\<lparr>patch_available := Some v, patch_leadTime := Some w\<rparr>) r =
     r\<lparr>available := v, leadTime := w\<rparr>"
  by (simp add: apply_patch_def empty_patch_def)

lemma decrementAvailable_eq:
  "decrementAvailable p s =
     s\<lparr>db := map (\<lambda>r. if product_id r = product_id p then r\<lparr>available := js_minus (available p) 1\<rparr> else r) (db s),
       calls := calls s @
         [UpdateProduct (product_id p) (empty_patch\<lparr>patch_available := Some (js_minus (available p) 1)\<rparr>)]\<rparr>"
  by (simp add: decrementAvailable_def updateProduct_def)

lemma notifyDelay_eq:
  "notifyDelay lt p s =
     s\<lparr>db := map (\<lambda>r. if product_id r = product_id p then r\<lparr>leadTime := lt\<rparr> else r) (db s),
       calls := calls s @
         [UpdateProduct (product_id p) (empty_patch\<lparr>patch_leadTime := Some lt\<rparr>),
          SendDelayNotification lt (name p)]\<rparr>"
  by (simp add: notifyDelay_def updateProduct_def sendDelayNotification_def)

lemma isWithinSeason_iff:
  "isWithinSeason p now \<longleftrightarrow>
     (\<exists>st en n. seasonStartDate p = Some (Date st) \<and> seasonEndDate p = Some (Date en) \<and>
        now = Date n \<and> st < n \<and> n < en)"
proof (cases now)
  case (Date n)
  show ?thesis
  proof (cases "seasonStartDate p")
    case None
    then show ?thesis by (simp add: isWithinSeason_def)
  next
    case (Some a)
    note st = this
    show ?thesis
    proof (cases "seasonEndDate p")
      case None
      then show ?thesis by (simp add: isWithinSeason_def)
    next
      case (Some b)
      with st Date show ?thesis
        by (cases a; cases b) (auto simp: isWithinSeason_def js_gt_def js_lt_def)
    qed
  qed
next
  case InvalidDate
  then show ?thesis
    by (simp add: isWithinSeason_def js_gt_def)
qed

lemma isNotExpired_iff:
  "isNotExpired p now \<longleftrightarrow>
     (\<exists>e n. expiryDate p = Some (Date e) \<and> now = Date n \<and> e > n)"
proof (cases "expiryDate p")
  case None
  then show ?thesis by (simp add: isNotExpired_def)
next
  case (Some d)
  then show ?thesis
    by (cases d; cases now) (auto simp: isNotExpired_def js_gt_def)
qed

lemma expectedRestockDate_in_range:
  "\<bar>n + leadTime p * 86400000\<bar> \<le> 8640000000000000 \<Longrightarrow>
     expectedRestockDate p (Date n) = Date (n + leadTime p * 86400000)"
  by (simp add: expectedRestockDate_def new_Date_def DAY_IN_MS_def)

lemma expire_eq:
  "updateProduct (product_id p) (empty_patch\<lparr>patch_available := Some 0\<rparr>)
     (sendExpirationNotification (name p) (expiryDate p) s) =
   s\<lparr>db := map (\<lambda>r. if product_id r = product_id p then r\<lparr>available := 0\<rparr> else r) (db s),
     calls := calls s @
       [SendExpirationNotification (name p) (expiryDate p),
        UpdateProduct (product_id p) (empty_patch\<lparr>patch_available := Some 0\<rparr>)]\<rparr>"
  by (simp add: updateProduct_def sendExpirationNotification_def)

lemma new_calls_append [simp]:
  "calls s' = calls s @ cs \<Longrightarrow> new_calls s s' = cs"
  by (simp add: new_calls_def)

lemma new_calls_same [simp]: "new_calls s s = []"
  by (simp add: new_calls_def)

lemma calls_decrementAvailable:
  "calls (decrementAvailable p s) =
     calls s @ [UpdateProduct (product_id p)
       (empty_patch\<lparr>patch_available := Some (js_minus (available p) 1)\<rparr>)]"
  by (simp add: decrementAvailable_eq)

lemma calls_notifyDelay:
  "calls (notifyDelay lt p s) =
     calls s @ [UpdateProduct (product_id p) (empty_patch\<lparr>patch_leadTime := Some lt\<rparr>),
                SendDelayNotification lt (name p)]"
  by (simp add: notifyDelay_eq)

lemma calls_handleSeasonalProduct:
  "calls (handleSeasonalProduct p now s) =
     calls s @
       (if js_gt (Some (expectedRestockDate p now)) (seasonEndDate p) then
          [SendOutOfStockNotification (name p),
           UpdateProduct (product_id p) (empty_patch\<lparr>patch_available := Some 0\<rparr>)]
        else if js_gt (seasonStartDate p) (Some now) then
          [SendOutOfStockNotification (name p),
           UpdateProduct (product_id p)
             (empty_patch\<lparr>patch_available := Some (available p),
                patch_leadTime := Some (leadTime p)\<rparr>)]
        else
          [UpdateProduct (product_id p) (empty_patch\<lparr>patch_leadTime := Some (leadTime p)\<rparr>),
           SendDelayNotification (leadTime p) (name p)])"
  by (simp add: handleSeasonalProduct_def calls_notifyDelay updateProduct_def
      sendOutOfStockNotification_def)

lemma calls_handleExpiredProduct:
  "calls (handleExpiredProduct p now s) =
     calls s @
       (if available p > 0 \<and> isNotExpired p now then
          [UpdateProduct (product_id p)
             (empty_patch\<lparr>patch_available := Some (js_minus (available p) 1)\<rparr>)]
        else
          [SendExpirationNotification (name p) (expiryDate p),
           UpdateProduct (product_id p) (empty_patch\<lparr>patch_available := Some 0\<rparr>)])"
  by (simp add: handleExpiredProduct_def calls_decrementAvailable expire_eq)

lemma calls_processOneUnit:
  "calls (processOneUnit p now s) =
     calls s @
       (if product_type p = ''NORMAL'' then
          (if available p > 0 then
             [UpdateProduct (product_id p)
                (empty_patch\<lparr>patch_available := Some (js_minus (available p) 1)\<rparr>)]
           else if leadTime p > 0 then
             [UpdateProduct (product_id p) (empty_patch\<lparr>patch_leadTime := Some (leadTime p)\<rparr>),
              SendDelayNotification (leadTime p) (name p)]
           else [])
        else if product_type p = ''SEASONAL'' then
          (if isWithinSeason p now \<and> available p > 0 then
             [UpdateProduct (product_id p)
                (empty_patch\<lparr>patch_available := Some (js_minus (available p) 1)\<rparr>)]
           else new_calls s (handleSeasonalProduct p now s))
        else if product_type p = ''EXPIRABLE'' then
          (if available p > 0 \<and> isNotExpired p now then
             [UpdateProduct (product_id p)
                (empty_patch\<lparr>patch_available := Some (js_minus (available p) 1)\<rparr>)]
           else
             [SendExpirationNotification (name p) (expiryDate p),
              UpdateProduct (product_id p) (empty_patch\<lparr>patch_available := Some 0\<rparr>)])
        else [])"
  by (simp add: processOneUnit_def processNormalProduct_def processSeasonalProduct_def
      processExpirableProduct_def calls_decrementAvailable calls_notifyDelay
      calls_handleSeasonalProduct calls_handleExpiredProduct)

lemma in_frame_iff:
  "in_frame pid s s' \<longleftrightarrow>
     (\<exists>cs. calls s' = calls s @ cs \<and> list_all (update_in_frame pid) cs) \<and>
     list_all2 (same_but_stock pid) (db s) (db s')"
proof -
  have "take (length (calls s)) (calls s') = calls s \<and>
        list_all (update_in_frame pid) (new_calls s s') \<longleftrightarrow>
        (\<exists>cs. calls s' = calls s @ cs \<and> list_all (update_in_frame pid) cs)"
  proof
    assume h: "take (length (calls s)) (calls s') = calls s \<and>
        list_all (update_in_frame pid) (new_calls s s')"
    have "calls s' = take (length (calls s)) (calls s') @ drop (length (calls s)) (calls s')"
      by simp
    with h have "calls s' = calls s @ new_calls s s'"
      by (simp add: new_calls_def)
    with h show "\<exists>cs. calls s' = calls s @ cs \<and> list_all (update_in_frame pid) cs"
      by blast
  next
    assume "\<exists>cs. calls s' = calls s @ cs \<and> list_all (update_in_frame pid) cs"
    then show "take (length (calls s)) (calls s') = calls s \<and>
        list_all (update_in_frame pid) (new_calls s s')"
      by (auto simp: new_calls_def)
  qed
  then show ?thesis
    unfolding in_frame_def by blast
qed

lemma same_but_stock_refl [simp]: "same_but_stock pid r r"
  by (simp add: same_but_stock_def)

lemma in_frame_refl: "in_frame pid s s"
  by (simp add: in_frame_iff list_all2_same)

lemma same_but_stock_patch:
  assumes "writes_only_stock u" and "same_but_stock pid r r'"
  shows "same_but_stock pid r (if product_id r' = pid then apply_patch u r' else r')"
  using assms by (auto simp: same_but_stock_def writes_only_stock_def apply_patch_def)

lemma in_frame_updateProduct:
  assumes "writes_only_stock u" and "in_frame pid s s'"
  shows "in_frame pid s (updateProduct pid u s')"
proof -
  from assms(2) obtain cs where cs: "calls s' = calls s @ cs" "list_all (update_in_frame pid) cs"
    and rows: "list_all2 (same_but_stock pid) (db s) (db s')"
    by (auto simp: in_frame_iff)
  have "calls (updateProduct pid u s') = calls s @ (cs @ [UpdateProduct pid u])"
    using cs by (simp add: updateProduct_def)
  moreover have "list_all (update_in_frame pid) (cs @ [UpdateProduct pid u])"
    using cs assms(1) by simp
  moreover have "list_all2 (same_but_stock pid) (db s)
      (map (\<lambda>r. if product_id r = pid then apply_patch u r else r) (db s'))"
  proof -
    have "list_all2
        (\<lambda>r r'. same_but_stock pid r (if product_id r' = pid then apply_patch u r' else r'))
        (db s) (db s')"
      using rows by (rule list_all2_mono) (rule same_but_stock_patch [OF assms(1)])
    then show ?thesis
      by (simp add: list_all2_map2)
  qed
  ultimately show ?thesis
    unfolding in_frame_iff by (simp add: updateProduct_def)
qed

lemma in_frame_notification:
  assumes "\<not> isUpdate c" and "in_frame pid s s'"
  shows "in_frame pid s (s'\<lparr>calls := calls s' @ [c]\<rparr>)"
proof -
  from assms(2) obtain cs where cs: "calls s' = calls s @ cs" "list_all (update_in_frame pid) cs"
    and rows: "list_all2 (same_but_stock pid) (db s) (db s')"
    by (auto simp: in_frame_iff)
  have "update_in_frame pid c"
    using assms(1) by (cases c) simp_all
  then have "list_all (update_in_frame pid) (cs @ [c])"
    using cs by simp
  moreover have "calls (s'\<lparr>calls := calls s' @ [c]\<rparr>) = calls s @ (cs @ [c])"
    using cs by simp
  ultimately show ?thesis
    unfolding in_frame_iff using rows by auto
qed

lemma writes_only_stock_patches [simp]:
  "writes_only_stock (empty_patch\<lparr>patch_available := a\<rparr>)"
  "writes_only_stock (empty_patch\<lparr>patch_leadTime := l\<rparr>)"
  "writes_only_stock (empty_patch\<lparr>patch_available := a, patch_leadTime := l\<rparr>)"
  by (simp_all add: writes_only_stock_def empty_patch_def)

lemma in_frame_decrementAvailable: "in_frame (product_id p) s (decrementAvailable p s)"
  by (simp add: decrementAvailable_def in_frame_updateProduct in_frame_refl)

lemma in_frame_notifyDelay: "in_frame (product_id p) s (notifyDelay lt p s)"
  by (simp add: notifyDelay_def sendDelayNotification_def in_frame_notification
      in_frame_updateProduct in_frame_refl)

lemma in_frame_handleSeasonalProduct:
  "in_frame (product_id p) s (handleSeasonalProduct p now s)"
  by (simp add: handleSeasonalProduct_def sendOutOfStockNotification_def in_frame_notification
      in_frame_updateProduct in_frame_refl in_frame_notifyDelay)

lemma in_frame_handleExpiredProduct:
  "in_frame (product_id p) s (handleExpiredProduct p now s)"
  by (simp add: handleExpiredProduct_def sendExpirationNotification_def in_frame_notification
      in_frame_updateProduct in_frame_refl in_frame_decrementAvailable)

lemma new_calls_handleSeasonalProduct:
  "new_calls s (handleSeasonalProduct p now s) =
     (if js_gt (Some (expectedRestockDate p now)) (seasonEndDate p) then
        [SendOutOfStockNotification (name p),
         UpdateProduct (product_id p) (empty_patch\<lparr>patch_available := Some 0\<rparr>)]
      else if js_gt (seasonStartDate p) (Some now) then
        [SendOutOfStockNotification (name p),
         UpdateProduct (product_id p)
           (empty_patch\<lparr>patch_available := Some (available p),
              patch_leadTime := Some (leadTime p)\<rparr>)]
      else
        [UpdateProduct (product_id p) (empty_patch\<lparr>patch_leadTime := Some (leadTime p)\<rparr>),
         SendDelayNotification (leadTime p) (name p)])"
  by (simp add: new_calls_def calls_handleSeasonalProduct)

lemma takesDecrementBranch_iff:
  "takesDecrementBranch p now \<longleftrightarrow> processOneUnit p now s = decrementAvailable p s"
proof
  assume "takesDecrementBranch p now"
  then show "processOneUnit p now s = decrementAvailable p s"
    by (auto simp: takesDecrementBranch_def processOneUnit_def processNormalProduct_def
        processSeasonalProduct_def processExpirableProduct_def)
next
  assume "processOneUnit p now s = decrementAvailable p s"
  then have "calls (processOneUnit p now s) = calls (decrementAvailable p s)"
    by simp
  then show "takesDecrementBranch p now"
    unfolding calls_processOneUnit calls_decrementAvailable new_calls_handleSeasonalProduct
      takesDecrementBranch_def
    by (simp split: if_splits)
qed

lemma decrementAvailable_twice:
  "decrementAvailable p (decrementAvailable p s) =
     s\<lparr>db := map (\<lambda>r. if product_id r = product_id p
                       then r\<lparr>available := js_minus (available p) 1\<rparr> else r) (db s),
       calls := calls s @
         [UpdateProduct (product_id p)
            (empty_patch\<lparr>patch_available := Some (js_minus (available p) 1)\<rparr>),
          UpdateProduct (product_id p)
            (empty_patch\<lparr>patch_available := Some (js_minus (available p) 1)\<rparr>)]\<rparr>"
  by (simp add: decrementAvailable_eq comp_def)

section \<open>NORMAL products\<close>

text \<open>
  C2, as amended. For a product of type NORMAL: with \<open>available > 0\<close> the call persists
  the double nearest to \<open>available - 1\<close> on the rows of that id, which is \<open>available - 1\<close>
  itself up to \<open>available = 2 ^ 53\<close>, and sends nothing; otherwise with
  \<open>leadTime > 0\<close> it persists \<open>leadTime\<close> with its current value and then sends the delay
  notification with \<open>(leadTime, name)\<close>; otherwise the state is unchanged: no update, no
  notification.
\<close>

theorem processOneUnit_normal:
  assumes "product_type p = ''NORMAL''"
  shows "processOneUnit p now s =
    (if available p > 0 then
       s\<lparr>db := map (\<lambda>r. if product_id r = product_id p
                         then r\<lparr>available := js_minus (available p) 1\<rparr> else r) (db s),
         calls := calls s @
           [UpdateProduct (product_id p)
              (empty_patch\<lparr>patch_available := Some (js_minus (available p) 1)\<rparr>)]\<rparr>
     else if leadTime p > 0 then
       s\<lparr>db := map (\<lambda>r. if product_id r = product_id p
                         then r\<lparr>leadTime := leadTime p\<rparr> else r) (db s),
         calls := calls s @
           [UpdateProduct (product_id p) (empty_patch\<lparr>patch_leadTime := Some (leadTime p)\<rparr>),
            SendDelayNotification (leadTime p) (name p)]\<rparr>
     else s)
    \<and> (0 < available p \<and> available p \<le> 9007199254740992 \<longrightarrow>
          js_minus (available p) 1 = available p - 1)"
  using assms
  by (simp add: processOneUnit_def processNormalProduct_def decrementAvailable_eq notifyDelay_eq
      js_minus_one_exact)

theorem processOneUnit_normal_witness:
  "product_type usb_cable = ''NORMAL'' \<and>
   0 < available usb_cable \<and> available usb_cable \<le> 9007199254740992 \<and>
   js_minus (available usb_cable) 1 = 1 \<and>
   processOneUnit usb_cable now0 \<lparr>db = [usb_cable], calls = []\<rparr> =
     \<lparr>db = [usb_cable\<lparr>available := 1\<rparr>],
      calls = [UpdateProduct 1 (empty_patch\<lparr>patch_available := Some 1\<rparr>)]\<rparr>"
  using processOneUnit_normal [of usb_cable now0 "\<lparr>db = [usb_cable], calls = []\<rparr>"]
  by (simp add: usb_cable_def)

text \<open>
  The claim as first stated, \<open>available - 1\<close> persisted for every NORMAL product in stock,
  fails where the subtraction rounds: at \<open>available = 2 ^ 53 + 2\<close> the call persists
  \<open>2 ^ 53\<close>.
\<close>

theorem processOneUnit_normal_counterexample:
  "product_type (usb_cable\<lparr>available := 9007199254740994\<rparr>) = ''NORMAL'' \<and>
   processOneUnit (usb_cable\<lparr>available := 9007199254740994\<rparr>) now0
     \<lparr>db = [usb_cable\<lparr>available := 9007199254740994\<rparr>], calls = []\<rparr> =
     \<lparr>db = [usb_cable\<lparr>available := 9007199254740992\<rparr>],
      calls = [UpdateProduct 1 (empty_patch\<lparr>patch_available := Some 9007199254740992\<rparr>)]\<rparr> \<and>
   (9007199254740992 :: int) \<noteq> 9007199254740994 - 1"
  by (simp add: processOneUnit_def processNormalProduct_def decrementAvailable_eq
      js_minus_rounds usb_cable_def)

section \<open>SEASONAL products\<close>

text \<open>
  C3, as amended. For a product of type SEASONAL the call decrements and persists
  \<open>available\<close> exactly when both season bounds are present,
  \<open>seasonStartDate < now < seasonEndDate\<close> strictly, and \<open>available > 0\<close>; the value persisted
  is the double nearest to \<open>available - 1\<close>, which is \<open>available - 1\<close> itself up to
  \<open>available = 2 ^ 53\<close>. In every other case it is the seasonal-restock handler that runs. In
  particular a null bound, or \<open>now\<close> equal to a bound, makes the within-season predicate
  false and the call goes to the handler; the model has no error outcome, as the source has
  no throwing statement.
\<close>

theorem processOneUnit_seasonal:
  assumes "product_type p = ''SEASONAL''"
  shows "processOneUnit p now s =
    (if (\<exists>st en n. seasonStartDate p = Some (Date st) \<and> seasonEndDate p = Some (Date en) \<and>
            now = Date n \<and> st < n \<and> n < en) \<and> available p > 0
     then
       s\<lparr>db := map (\<lambda>r. if product_id r = product_id p
                         then r\<lparr>available := js_minus (available p) 1\<rparr> else r) (db s),
         calls := calls s @
           [UpdateProduct (product_id p)
              (empty_patch\<lparr>patch_available := Some (js_minus (available p) 1)\<rparr>)]\<rparr>
     else handleSeasonalProduct p now s)
    \<and> (seasonStartDate p = None \<or> seasonEndDate p = None \<or>
        seasonStartDate p = Some now \<or> seasonEndDate p = Some now \<longrightarrow>
          \<not> isWithinSeason p now \<and> processOneUnit p now s = handleSeasonalProduct p now s)
    \<and> (0 < available p \<and> available p \<le> 9007199254740992 \<longrightarrow>
          js_minus (available p) 1 = available p - 1)"
proof -
  let ?inside = "\<exists>st en n. seasonStartDate p = Some (Date st) \<and>
     seasonEndDate p = Some (Date en) \<and> now = Date n \<and> st < n \<and> n < en"
  have dispatch: "processOneUnit p now s = processSeasonalProduct p now s"
    using assms by (simp add: processOneUnit_def)
  have inside: "isWithinSeason p now \<longleftrightarrow> ?inside"
    by (rule isWithinSeason_iff)
  have out: "\<not> isWithinSeason p now"
    if "seasonStartDate p = None \<or> seasonEndDate p = None \<or>
        seasonStartDate p = Some now \<or> seasonEndDate p = Some now"
    using that by (auto simp: isWithinSeason_def)
  show ?thesis
  proof (cases "isWithinSeason p now \<and> available p > 0")
    case True
    then have "processOneUnit p now s = decrementAvailable p s"
      by (simp add: dispatch processSeasonalProduct_def)
    moreover have "?inside \<and> available p > 0"
      using True inside by blast
    ultimately show ?thesis
      using True out unfolding decrementAvailable_eq by (auto simp: js_minus_one_exact)
  next
    case False
    then have "processOneUnit p now s = handleSeasonalProduct p now s"
      unfolding dispatch processSeasonalProduct_def by (simp only: if_False)
    moreover have "\<not> (?inside \<and> available p > 0)"
      using False inside by blast
    ultimately show ?thesis
      using out by (auto simp: js_minus_one_exact)
  qed
qed

theorem processOneUnit_seasonal_witness:
  "product_type watermelon = ''SEASONAL'' \<and>
   0 < available watermelon \<and> available watermelon \<le> 9007199254740992 \<and>
   js_minus (available watermelon) 1 = 2 \<and>
   processOneUnit watermelon now0 \<lparr>db = [watermelon], calls = []\<rparr> =
     \<lparr>db = [watermelon\<lparr>available := 2\<rparr>],
      calls = [UpdateProduct 1 (empty_patch\<lparr>patch_available := Some 2\<rparr>)]\<rparr> \<and>
   seasonStartDate watermelon = Some (Date 1699827200000) \<and>
   \<not> isWithinSeason watermelon (Date 1699827200000) \<and>
   processOneUnit watermelon (Date 1699827200000) \<lparr>db = [watermelon], calls = []\<rparr> =
     handleSeasonalProduct watermelon (Date 1699827200000) \<lparr>db = [watermelon], calls = []\<rparr>"
  using processOneUnit_seasonal [of watermelon now0 "\<lparr>db = [watermelon], calls = []\<rparr>"]
    processOneUnit_seasonal [of watermelon "Date 1699827200000" "\<lparr>db = [watermelon], calls = []\<rparr>"]
  by (simp add: watermelon_def now0_def)

text \<open>
  The claim as first stated, a decrement for every SEASONAL product in season and in stock,
  fails where the subtraction rounds: at \<open>available = 2 ^ 53 + 2\<close> the value persisted is
  \<open>2 ^ 53\<close>, not \<open>available - 1\<close>.
\<close>

theorem processOneUnit_seasonal_counterexample:
  "product_type (watermelon\<lparr>available := 9007199254740994\<rparr>) = ''SEASONAL'' \<and>
   isWithinSeason (watermelon\<lparr>available := 9007199254740994\<rparr>) now0 \<and>
   processOneUnit (watermelon\<lparr>available := 9007199254740994\<rparr>) now0
     \<lparr>db = [watermelon\<lparr>available := 9007199254740994\<rparr>], calls = []\<rparr> =
     \<lparr>db = [watermelon\<lparr>available := 9007199254740992\<rparr>],
      calls = [UpdateProduct 1 (empty_patch\<lparr>patch_available := Some 9007199254740992\<rparr>)]\<rparr> \<and>
   (9007199254740992 :: int) \<noteq> 9007199254740994 - 1"
  by (simp add: processOneUnit_def processSeasonalProduct_def isWithinSeason_def
      decrementAvailable_eq js_minus_rounds watermelon_def now0_def)



section \<open>EXPIRABLE products\<close>

text \<open>
  C5, as amended. For a product of type EXPIRABLE: with \<open>available > 0\<close> and an expiry
  date that is present and strictly after \<open>now\<close>, the call persists the double nearest to
  \<open>available - 1\<close>, which is \<open>available - 1\<close> itself up to \<open>available = 2 ^ 53\<close>, and sends
  nothing;
  in every other case, among them an expiry date equal to \<open>now\<close> and a null expiry date, it
  sends the expiration notification with \<open>(name, expiryDate)\<close> and persists
  \<open>available = 0\<close>.
\<close>

theorem processOneUnit_expirable:
  assumes "product_type p = ''EXPIRABLE''"
  shows "processOneUnit p now s =
    (if available p > 0 \<and> (\<exists>e n. expiryDate p = Some (Date e) \<and> now = Date n \<and> e > n)
     then
       s\<lparr>db := map (\<lambda>r. if product_id r = product_id p
                         then r\<lparr>available := js_minus (available p) 1\<rparr> else r) (db s),
         calls := calls s @
           [UpdateProduct (product_id p)
              (empty_patch\<lparr>patch_available := Some (js_minus (available p) 1)\<rparr>)]\<rparr>
     else
       s\<lparr>db := map (\<lambda>r. if product_id r = product_id p then r\<lparr>available := 0\<rparr> else r) (db s),
         calls := calls s @
           [SendExpirationNotification (name p) (expiryDate p),
            UpdateProduct (product_id p) (empty_patch\<lparr>patch_available := Some 0\<rparr>)]\<rparr>)
    \<and> (expiryDate p = None \<or> expiryDate p = Some now \<longrightarrow> \<not> isNotExpired p now)
    \<and> (0 < available p \<and> available p \<le> 9007199254740992 \<longrightarrow>
          js_minus (available p) 1 = available p - 1)"
proof -
  let ?fresh = "\<exists>e n. expiryDate p = Some (Date e) \<and> now = Date n \<and> e > n"
  have dispatch: "processOneUnit p now s = processExpirableProduct p now s"
    using assms by (simp add: processOneUnit_def)
  have fresh: "isNotExpired p now \<longleftrightarrow> ?fresh"
    by (rule isNotExpired_iff)
  have stale: "\<not> isNotExpired p now" if "expiryDate p = None \<or> expiryDate p = Some now"
    using that by (auto simp: isNotExpired_def)
  show ?thesis
  proof (cases "available p > 0 \<and> isNotExpired p now")
    case True
    then have "processOneUnit p now s = decrementAvailable p s"
      by (simp add: dispatch processExpirableProduct_def)
    moreover have "available p > 0 \<and> ?fresh"
      using True fresh by blast
    ultimately show ?thesis
      using stale unfolding decrementAvailable_eq by (auto simp: js_minus_one_exact)
  next
    case False
    then have "processOneUnit p now s =
        updateProduct (product_id p) (empty_patch\<lparr>patch_available := Some 0\<rparr>)
          (sendExpirationNotification (name p) (expiryDate p) s)"
      unfolding dispatch processExpirableProduct_def handleExpiredProduct_def
      by (simp only: if_False)
    moreover have "\<not> (available p > 0 \<and> ?fresh)"
      using False fresh by blast
    ultimately show ?thesis
      using stale unfolding expire_eq by (auto simp: js_minus_one_exact)
  qed
qed

theorem processOneUnit_expirable_witness:
  "product_type milk = ''EXPIRABLE'' \<and>
   processOneUnit milk now0 \<lparr>db = [milk], calls = []\<rparr> =
     \<lparr>db = [milk\<lparr>available := 0\<rparr>],
      calls = [SendExpirationNotification ''Milk'' (Some (Date 1699827200000)),
               UpdateProduct 1 (empty_patch\<lparr>patch_available := Some 0\<rparr>)]\<rparr> \<and>
   expiryDate milk = Some (Date 1699827200000) \<and>
   \<not> isNotExpired milk (Date 1699827200000) \<and>
   0 < available butter \<and> available butter \<le> 9007199254740992 \<and>
   js_minus (available butter) 1 = 1 \<and>
   processOneUnit butter now0 \<lparr>db = [butter], calls = []\<rparr> =
     \<lparr>db = [butter\<lparr>available := 1\<rparr>],
      calls = [UpdateProduct 1 (empty_patch\<lparr>patch_available := Some 1\<rparr>)]\<rparr>"
  using processOneUnit_expirable [of milk now0 "\<lparr>db = [milk], calls = []\<rparr>"]
    processOneUnit_expirable [of milk "Date 1699827200000" "\<lparr>db = [milk], calls = []\<rparr>"]
    processOneUnit_expirable [of butter now0 "\<lparr>db = [butter], calls = []\<rparr>"]
  by (simp add: milk_def butter_def now0_def)

text \<open>
  The claim as first stated, \<open>available - 1\<close> persisted for every EXPIRABLE product in
  stock and not expired, fails where the subtraction rounds: at \<open>available = 2 ^ 53 + 2\<close>
  the call persists \<open>2 ^ 53\<close>.
\<close>

theorem processOneUnit_expirable_counterexample:
  "product_type (butter\<lparr>available := 9007199254740994\<rparr>) = ''EXPIRABLE'' \<and>
   isNotExpired (butter\<lparr>available := 9007199254740994\<rparr>) now0 \<and>
   processOneUnit (butter\<lparr>available := 9007199254740994\<rparr>) now0
     \<lparr>db = [butter\<lparr>available := 9007199254740994\<rparr>], calls = []\<rparr> =
     \<lparr>db = [butter\<lparr>available := 9007199254740992\<rparr>],
      calls = [UpdateProduct 1 (empty_patch\<lparr>patch_available := Some 9007199254740992\<rparr>)]\<rparr> \<and>
   (9007199254740992 :: int) \<noteq> 9007199254740994 - 1"
  by (simp add: processOneUnit_def processExpirableProduct_def isNotExpired_def
      decrementAvailable_eq js_minus_rounds butter_def now0_def)



section \<open>Unknown type tags\<close>

text \<open>
  C8. For a product whose type tag is none of NORMAL, SEASONAL and EXPIRABLE the call returns
  the state it was given: no update, no notification; the model has no error outcome, as no
  statement of \<open>processOneUnit\<close> throws.
\<close>

theorem processOneUnit_unknown_type:
  assumes "product_type p \<noteq> ''NORMAL''" and "product_type p \<noteq> ''SEASONAL''"
    and "product_type p \<noteq> ''EXPIRABLE''"
  shows "processOneUnit p now s = s"
  using assms by (simp add: processOneUnit_def)

theorem processOneUnit_unknown_type_witness:
  "''FLASHSALE'' \<noteq> ''NORMAL'' \<and> ''FLASHSALE'' \<noteq> ''SEASONAL'' \<and> ''FLASHSALE'' \<noteq> ''EXPIRABLE'' \<and>
   processOneUnit (usb_cable\<lparr>product_type := ''FLASHSALE''\<rparr>) now0 \<lparr>db = [usb_cable], calls = []\<rparr> =
     \<lparr>db = [usb_cable], calls = []\<rparr>"
  using processOneUnit_unknown_type
    [of "usb_cable\<lparr>product_type := ''FLASHSALE''\<rparr>" now0 "\<lparr>db = [usb_cable], calls = []\<rparr>"]
  by simp

section \<open>Writes per call\<close>

text \<open>
  C10. A call of \<open>processOneUnit\<close> keeps the calls made before it and adds at most one
  \<open>updateProduct\<close>: no path writes twice.
\<close>

theorem processOneUnit_at_most_one_update:
  "take (length (calls s)) (calls (processOneUnit p now s)) = calls s \<and>
   length (filter isUpdate (new_calls s (processOneUnit p now s))) \<le> 1"
proof -
  have "calls (processOneUnit p now s) = calls s @ new_calls s (processOneUnit p now s)"
    by (simp add: calls_processOneUnit calls_handleSeasonalProduct)
  moreover have "length (filter isUpdate (new_calls s (processOneUnit p now s))) \<le> 1"
    by (simp add: calls_processOneUnit calls_handleSeasonalProduct)
  ultimately show ?thesis
    by (metis append_eq_conv_conj)
qed

section \<open>Frame of the writes\<close>

text \<open>
  C9. Every operation of the service (\<open>processOneUnit\<close>, and the public handlers
  \<open>notifyDelay\<close>, \<open>handleSeasonalProduct\<close> and \<open>handleExpiredProduct\<close>) issues only patches
  on the id of the given product that set no field but \<open>available\<close> and \<open>leadTime\<close>; the
  table keeps its rows, none added and none removed, with \<open>id\<close>, \<open>name\<close>, \<open>type\<close>,
  \<open>expiryDate\<close>, \<open>seasonStartDate\<close> and \<open>seasonEndDate\<close> as they were, and the rows of
  another id untouched.
\<close>

theorem service_writes_only_stock:
  "in_frame (product_id p) s (processOneUnit p now s) \<and>
   in_frame (product_id p) s (notifyDelay lt p s) \<and>
   in_frame (product_id p) s (handleSeasonalProduct p now s) \<and>
   in_frame (product_id p) s (handleExpiredProduct p now s)"
proof -
  have "in_frame (product_id p) s (processOneUnit p now s)"
    by (simp add: processOneUnit_def processNormalProduct_def processSeasonalProduct_def
        processExpirableProduct_def in_frame_refl in_frame_decrementAvailable
        in_frame_notifyDelay in_frame_handleSeasonalProduct in_frame_handleExpiredProduct)
  then show ?thesis
    by (simp add: in_frame_notifyDelay in_frame_handleSeasonalProduct
        in_frame_handleExpiredProduct)
qed

theorem service_writes_only_stock_witness:
  "in_frame (product_id grapes) two_rows (processOneUnit grapes now0 two_rows) \<and>
   in_frame (product_id grapes) two_rows (notifyDelay 7 grapes two_rows) \<and>
   in_frame (product_id grapes) two_rows (handleSeasonalProduct grapes now0 two_rows) \<and>
   in_frame (product_id grapes) two_rows (handleExpiredProduct grapes now0 two_rows) \<and>
   product_id (db two_rows ! 1) \<noteq> product_id grapes \<and>
   db (notifyDelay 7 grapes two_rows) =
     [grapes\<lparr>leadTime := 7\<rparr>, usb_cable\<lparr>product_id := 2\<rparr>]"
proof -
  note frame = service_writes_only_stock [of grapes two_rows now0 7]
  have other: "product_id (db two_rows ! 1) \<noteq> product_id grapes"
    by (simp add: two_rows_def grapes_def)
  have rows: "db (notifyDelay 7 grapes two_rows) =
      [grapes\<lparr>leadTime := 7\<rparr>, usb_cable\<lparr>product_id := 2\<rparr>]"
    by (simp add: notifyDelay_eq two_rows_def grapes_def)
  from frame other rows show ?thesis
    by blast
qed

section \<open>One action per call\<close>

text \<open>
  C6, as amended. A call of \<open>processOneUnit\<close> performs at most one of the four actions
  (decrement, delay notification, out-of-stock notification, expiration notification), and
  an action comes with exactly one update. It performs none, and returns the state
  unchanged, exactly for a NORMAL product with \<open>available \<le> 0\<close> and \<open>leadTime \<le> 0\<close> and for a
  product whose type tag is none of the three.
\<close>

theorem processOneUnit_one_action_or_none:
  "take (length (calls s)) (calls (processOneUnit p now s)) = calls s \<and>
   (if product_type p = ''NORMAL'' \<and> available p \<le> 0 \<and> leadTime p \<le> 0 \<or>
       product_type p \<noteq> ''NORMAL'' \<and> product_type p \<noteq> ''SEASONAL'' \<and>
       product_type p \<noteq> ''EXPIRABLE''
    then processOneUnit p now s = s \<and>
         \<not> one_action_with_update p (new_calls s (processOneUnit p now s))
    else one_action_with_update p (new_calls s (processOneUnit p now s)) \<and>
         length (filter isUpdate (new_calls s (processOneUnit p now s))) = 1)"
proof -
  have prefix: "take (length (calls s)) (calls (processOneUnit p now s)) = calls s"
    by (simp add: calls_processOneUnit)
  have none: "\<not> one_action_with_update p []"
    by (simp add: one_action_with_update_def)
  show ?thesis
  proof (cases "product_type p = ''NORMAL'' \<and> available p \<le> 0 \<and> leadTime p \<le> 0 \<or>
       product_type p \<noteq> ''NORMAL'' \<and> product_type p \<noteq> ''SEASONAL'' \<and>
       product_type p \<noteq> ''EXPIRABLE''")
    case True
    then have "processOneUnit p now s = s"
      by (auto simp: processOneUnit_def processNormalProduct_def)
    with True prefix none show ?thesis
      by simp
  next
    case False
    have "one_action_with_update p (new_calls s (processOneUnit p now s))"
      using False
      by (auto simp: calls_processOneUnit new_calls_handleSeasonalProduct one_action_with_update_def)
    moreover have "length (filter isUpdate (new_calls s (processOneUnit p now s))) = 1"
      using False
      by (auto simp: calls_processOneUnit new_calls_handleSeasonalProduct)
    ultimately show ?thesis
      using False prefix by simp
  qed
qed

theorem processOneUnit_one_action_or_none_witness:
  "processOneUnit usb_dongle_none now0 \<lparr>db = [usb_dongle_none], calls = []\<rparr> =
     \<lparr>db = [usb_dongle_none], calls = []\<rparr> \<and>
   one_action_with_update grapes
     (new_calls \<lparr>db = [grapes], calls = []\<rparr>
        (processOneUnit grapes now0 \<lparr>db = [grapes], calls = []\<rparr>)) \<and>
   new_calls \<lparr>db = [grapes], calls = []\<rparr>
        (processOneUnit grapes now0 \<lparr>db = [grapes], calls = []\<rparr>) =
     [SendOutOfStockNotification ''Grapes'',
      UpdateProduct 1 (empty_patch\<lparr>patch_available := Some 0\<rparr>)]"
proof -
  have "processOneUnit usb_dongle_none now0 \<lparr>db = [usb_dongle_none], calls = []\<rparr> =
     \<lparr>db = [usb_dongle_none], calls = []\<rparr>"
    using processOneUnit_one_action_or_none
      [of "\<lparr>db = [usb_dongle_none], calls = []\<rparr>" usb_dongle_none now0]
    by (simp add: usb_dongle_none_def)
  moreover have "one_action_with_update grapes
     (new_calls \<lparr>db = [grapes], calls = []\<rparr>
        (processOneUnit grapes now0 \<lparr>db = [grapes], calls = []\<rparr>))"
    using processOneUnit_one_action_or_none [of "\<lparr>db = [grapes], calls = []\<rparr>" grapes now0]
    by (simp add: grapes_def)
  moreover have "new_calls \<lparr>db = [grapes], calls = []\<rparr>
        (processOneUnit grapes now0 \<lparr>db = [grapes], calls = []\<rparr>) =
     [SendOutOfStockNotification ''Grapes'',
      UpdateProduct 1 (empty_patch\<lparr>patch_available := Some 0\<rparr>)]"
    by (simp add: calls_processOneUnit new_calls_handleSeasonalProduct isWithinSeason_def
        expectedRestockDate_in_range grapes_def now0_def)
  ultimately show ?thesis
    by blast
qed

text \<open>
  The claim as first stated, exactly one action on every product, fails on a NORMAL product
  with no stock and no lead time: the call does nothing.
\<close>

theorem processOneUnit_one_action_counterexample:
  "processOneUnit usb_dongle_none now0 \<lparr>db = [usb_dongle_none], calls = []\<rparr> =
     \<lparr>db = [usb_dongle_none], calls = []\<rparr> \<and>
   \<not> one_action_with_update usb_dongle_none
       (new_calls \<lparr>db = [usb_dongle_none], calls = []\<rparr>
          (processOneUnit usb_dongle_none now0 \<lparr>db = [usb_dongle_none], calls = []\<rparr>))"
  by (simp add: processOneUnit_def processNormalProduct_def usb_dongle_none_def
      one_action_with_update_def)

section \<open>Two calls on one record\<close>

text \<open>
  C1, as amended. \<open>decrementAvailable\<close> writes \<open>available - 1\<close> computed from the record it
  is given, and the call does not change that record. So two calls in a row on the same
  record, both taking the decrement branch (a NORMAL product whose first call takes it
  always takes it again), issue the same patch twice: the stored \<open>available\<close> after the
  second call is what the first call stored, the double nearest to the record's
  \<open>available\<close> minus 1, which is \<open>available - 1\<close> itself up to \<open>available = 2 ^ 53\<close>; the
  table is as after the first call.
\<close>

theorem processOneUnit_twice_same_record:
  assumes "takesDecrementBranch p now1" and "takesDecrementBranch p now2"
  shows "processOneUnit p now2 (processOneUnit p now1 s) =
      s\<lparr>db := map (\<lambda>r. if product_id r = product_id p
                        then r\<lparr>available := js_minus (available p) 1\<rparr> else r) (db s),
        calls := calls s @
          [UpdateProduct (product_id p)
             (empty_patch\<lparr>patch_available := Some (js_minus (available p) 1)\<rparr>),
           UpdateProduct (product_id p)
             (empty_patch\<lparr>patch_available := Some (js_minus (available p) 1)\<rparr>)]\<rparr>
    \<and> db (processOneUnit p now2 (processOneUnit p now1 s)) = db (processOneUnit p now1 s)
    \<and> (available p \<le> 9007199254740992 \<longrightarrow> js_minus (available p) 1 = available p - 1)"
proof -
  have first: "processOneUnit p now1 s = decrementAvailable p s"
    using assms(1) by (simp add: takesDecrementBranch_iff [symmetric])
  have second: "processOneUnit p now2 (decrementAvailable p s) =
      decrementAvailable p (decrementAvailable p s)"
    using assms(2) by (simp add: takesDecrementBranch_iff [symmetric])
  have "0 < available p"
    using assms(1) by (auto simp: takesDecrementBranch_def)
  then have "available p \<le> 9007199254740992 \<longrightarrow> js_minus (available p) 1 = available p - 1"
    by (simp add: js_minus_one_exact)
  then show ?thesis
    unfolding first second decrementAvailable_twice
    by (simp add: decrementAvailable_eq)
qed

theorem processOneUnit_twice_same_record_witness:
  "takesDecrementBranch usb_cable now0 \<and> available usb_cable \<le> 9007199254740992 \<and>
   js_minus (available usb_cable) 1 = 1 \<and>
   processOneUnit usb_cable now0 (processOneUnit usb_cable now0 \<lparr>db = [usb_cable], calls = []\<rparr>) =
     \<lparr>db = [usb_cable\<lparr>available := 1\<rparr>],
      calls = [UpdateProduct 1 (empty_patch\<lparr>patch_available := Some 1\<rparr>),
               UpdateProduct 1 (empty_patch\<lparr>patch_available := Some 1\<rparr>)]\<rparr>"
proof -
  have h: "takesDecrementBranch usb_cable now0"
    by (simp add: takesDecrementBranch_def usb_cable_def)
  show ?thesis
    using h processOneUnit_twice_same_record
      [OF h h, of "\<lparr>db = [usb_cable], calls = []\<rparr>"]
    by (simp add: usb_cable_def)
qed

text \<open>
  The claim as first stated, a stored \<open>available\<close> of the original minus 2, fails on the
  in-stock NORMAL product of the tests: after two calls the row holds 1, not 0.
\<close>

theorem processOneUnit_twice_counterexample:
  "processOneUnit usb_cable now0 \<lparr>db = [usb_cable], calls = []\<rparr> =
     decrementAvailable usb_cable \<lparr>db = [usb_cable], calls = []\<rparr> \<and>
   map available
     (db (processOneUnit usb_cable now0
        (processOneUnit usb_cable now0 \<lparr>db = [usb_cable], calls = []\<rparr>))) =
     [available usb_cable - 1] \<and>
   map available
     (db (processOneUnit usb_cable now0
        (processOneUnit usb_cable now0 \<lparr>db = [usb_cable], calls = []\<rparr>))) \<noteq>
     [available usb_cable - 2]"
  by (simp add: processOneUnit_def processNormalProduct_def decrementAvailable_eq
      js_minus_exact usb_cable_def)

end
